theory Spec2Isabelle
  imports Main
begin

section \<open>Decimal digit strings\<close>

text \<open>
  The page (\<^verbatim>\<open>src/app/page.tsx\<close>) keeps every user-visible quantity as a string and
  converts with the \<^verbatim>\<open>ethers\<close> library and the JavaScript built-ins. Strings are
  modelled as \<^typ>\<open>string\<close>; a \<^verbatim>\<open>bigint\<close> is an \<^typ>\<open>int\<close>.
\<close>

definition isDigit :: "char \<Rightarrow> bool" where
  "isDigit c = (48 \<le> (of_char c :: nat) \<and> (of_char c :: nat) \<le> 57)"

definition digitVal :: "char \<Rightarrow> nat" where
  "digitVal c = of_char c - 48"

definition digitChar :: "nat \<Rightarrow> char" where
  "digitChar d = ''0123456789'' ! d"

text \<open>The value of a string of decimal digits, most significant digit first.\<close>

definition readNat :: "string \<Rightarrow> nat" where
  "readNat s = foldl (\<lambda>n c. 10 * n + digitVal c) 0 s"

text \<open>\<^verbatim>\<open>bigint.toString()\<close> of a non-negative value.\<close>

fun showNat :: "nat \<Rightarrow> string" where
  "showNat n = (if n < 10 then [digitChar n] else showNat (n div 10) @ [digitChar (n mod 10)])"

declare showNat.simps [simp del]

definition allZeros :: "string \<Rightarrow> bool" where
  "allZeros s = list_all (\<lambda>c. c = CHR ''0'') s"

section \<open>The ethers unit conversions\<close>

text \<open>
  \<^verbatim>\<open>ethers.parseUnits(value, unit)\<close> (ethers v6, the version that has
  \<^verbatim>\<open>BrowserProvider\<close>) looks the unit name up in a table, three decimals per step,
  and reads the string as a fixed-point number of that many decimals, signed and 512 bits
  wide. It throws on a string that is not a decimal numeral, on fractional digits beyond
  the unit's decimals that are not zero, and on overflow. A throw is \<open>None\<close>.
\<close>

definition names :: "string list" where
  "names = [''wei'', ''kwei'', ''mwei'', ''gwei'', ''szabo'', ''finney'', ''ether'']"

fun indexOf :: "string list \<Rightarrow> string \<Rightarrow> nat option" where
  "indexOf [] u = None"
| "indexOf (x # xs) u = (if x = u then Some 0 else map_option Suc (indexOf xs u))"

text \<open>The regular expression \<^verbatim>\<open>/^(-?)([0-9]*)\.?([0-9]*)$/\<close>: sign, whole part, fraction.\<close>

definition matchNumber :: "string \<Rightarrow> (string \<times> string \<times> string) option" where
  "matchNumber s =
     (let sign = (case s of [] \<Rightarrow> '''' | c # t \<Rightarrow> if c = CHR ''-'' then ''-'' else '''');
          r0 = drop (length sign) s;
          whole = takeWhile isDigit r0;
          r1 = dropWhile isDigit r0;
          r2 = (case r1 of [] \<Rightarrow> [] | c # t \<Rightarrow> if c = CHR ''.'' then t else r1);
          frac = takeWhile isDigit r2
      in if dropWhile isDigit r2 = [] then Some (sign, whole, frac) else None)"

text \<open>\<^verbatim>\<open>FixedNumber.fromString(value, { decimals, width: 512 }).value\<close>.\<close>

definition fromString :: "string \<Rightarrow> nat \<Rightarrow> int option" where
  "fromString v decimals =
     (case matchNumber v of
        None \<Rightarrow> None
      | Some (sign, w, f) \<Rightarrow>
          if length w + length f = 0 then None
          else
            let whole = (if w = [] then ''0'' else w);
                decimal = f @ replicate (decimals - length f) (CHR ''0'')
            in if \<not> allZeros (drop decimals decimal) then None
               else
                 let n = int (readNat (whole @ take decimals decimal));
                     val = (if sign = ''-'' then - n else n)
                 in if - (2 ^ 511) \<le> val \<and> val < 2 ^ 511 then Some val else None)"

definition parseUnits :: "string \<Rightarrow> string \<Rightarrow> int option" where
  "parseUnits v unit =
     (case indexOf names unit of
        None \<Rightarrow> None
      | Some i \<Rightarrow> fromString v (3 * i))"

text \<open>
  \<^verbatim>\<open>ethers.formatEther(value)\<close>, that is \<^verbatim>\<open>formatUnits(value, 18)\<close>: the value is
  checked against the 512-bit signed range (a throw is \<open>None\<close>) and printed by the
  library's \<^verbatim>\<open>toString(val, decimals)\<close>, whose three loops are \<open>padWhole\<close> (prefix
  \<^verbatim>\<open>"0000"\<close> while the string is not longer than the decimals), \<open>trimZeros\<close> on the
  front (drop a leading zero unless the point follows) and \<open>trimZeros\<close> on the reversed
  string (the same for trailing zeros).
\<close>

function padWhole :: "string \<Rightarrow> nat \<Rightarrow> string" where
  "padWhole str decimals =
     (if length str \<le> decimals then padWhole (''0000'' @ str) decimals else str)"
  by pat_completeness auto
termination
  by (relation "measure (\<lambda>(str, decimals). Suc decimals - length str)") auto

declare padWhole.simps [simp del]

fun trimZeros :: "string \<Rightarrow> string" where
  "trimZeros (a # b # r) =
     (if a = CHR ''0'' \<and> b \<noteq> CHR ''.'' then trimZeros (b # r) else a # b # r)"
| "trimZeros s = s"

definition toStringFixed :: "int \<Rightarrow> nat \<Rightarrow> string" where
  "toStringFixed val decimals =
     (let negative = (if val < 0 then ''-'' else '''');
          str = showNat (nat \<bar>val\<bar>)
      in if decimals = 0 then negative @ str
         else
           let padded = padWhole str decimals;
               index = length padded - decimals;
               pointed = take index padded @ ''.'' @ drop index padded
           in negative @ rev (trimZeros (rev (trimZeros pointed))))"

definition formatUnits :: "int \<Rightarrow> nat \<Rightarrow> string option" where
  "formatUnits val decimals =
     (if - (2 ^ 511) \<le> val \<and> val < 2 ^ 511 then Some (toStringFixed val decimals) else None)"

definition formatEther :: "int \<Rightarrow> string option" where
  "formatEther wei = formatUnits wei 18"

section \<open>JavaScript numbers\<close>

text \<open>
  A double is kept exactly: \<open>Dbl neg m e\<close> is the value \<open>m * 2 ^ e\<close> with its sign,
  \<open>DInf neg\<close> an infinity, \<open>DNaN\<close> not-a-number. Rounding to the nearest double, ties to
  even, is integer arithmetic on a fraction: the exponent is chosen so that the quotient
  has 53 bits (or the least exponent, -1074, is reached), and the quotient is rounded.
\<close>

datatype double = DNaN | DInf bool | Dbl bool nat int

fun bitLength :: "nat \<Rightarrow> nat" where
  "bitLength n = (if n = 0 then 0 else bitLength (n div 2) + 1)"

declare bitLength.simps [simp del]

definition roundHalfEven :: "nat \<Rightarrow> nat \<Rightarrow> nat" where
  "roundHalfEven num den =
     (let q = num div den; r = num mod den
      in if den < 2 * r \<or> (2 * r = den \<and> odd q) then q + 1 else q)"

definition scaled :: "nat \<Rightarrow> nat \<Rightarrow> int \<Rightarrow> nat" where
  "scaled num den e =
     (if 0 \<le> e then roundHalfEven num (den * 2 ^ nat e)
      else roundHalfEven (num * 2 ^ nat (- e)) den)"

definition roundToDouble :: "bool \<Rightarrow> nat \<Rightarrow> nat \<Rightarrow> double" where
  "roundToDouble neg num den =
     (if num = 0 then Dbl neg 0 0
      else
        let e0 = int (bitLength num) - int (bitLength den) - 53;
            e1 = (if 2 ^ 53 \<le> scaled num den e0 then e0 + 1 else e0);
            e = max e1 (- 1074);
            m = scaled num den e
        in if 0 \<le> e \<and> 2 ^ 1024 \<le> m * 2 ^ nat e then DInf neg else Dbl neg m e)"

text \<open>
  White space that \<^verbatim>\<open>parseFloat\<close>, \<^verbatim>\<open>parseInt\<close> and \<^verbatim>\<open>BigInt\<close> skip. Strings are
  byte strings here, so only the ASCII members of the class are covered: tab, line feed,
  vertical tab, form feed, carriage return, space.
\<close>

definition isSpace :: "char \<Rightarrow> bool" where
  "isSpace c = ((9 \<le> (of_char c :: nat) \<and> (of_char c :: nat) \<le> 13) \<or> (of_char c :: nat) = 32)"

text \<open>
  \<^verbatim>\<open>parseFloat(string)\<close>: after leading white space, the longest prefix that is a
  decimal literal (sign, \<^verbatim>\<open>Infinity\<close> or digits with an optional fraction and an
  optional exponent), rounded to a double; \<open>DNaN\<close> when there is no such prefix.
\<close>

definition parseExponent :: "string \<Rightarrow> int" where
  "parseExponent r =
     (case r of
        [] \<Rightarrow> 0
      | c # t \<Rightarrow>
          if c = CHR ''e'' \<or> c = CHR ''E'' then
            (let eneg = (case t of [] \<Rightarrow> False | d # u \<Rightarrow> d = CHR ''-'');
                 signed = (case t of [] \<Rightarrow> False | d # u \<Rightarrow> d = CHR ''-'' \<or> d = CHR ''+'');
                 ed = takeWhile isDigit (if signed then drop 1 t else t)
             in if ed = [] then 0
                else if eneg then - int (readNat ed) else int (readNat ed))
          else 0)"

definition parseFloat :: "string \<Rightarrow> double" where
  "parseFloat str =
     (let s = dropWhile isSpace str;
          neg = (case s of [] \<Rightarrow> False | c # t \<Rightarrow> c = CHR ''-'');
          signed = (case s of [] \<Rightarrow> False | c # t \<Rightarrow> c = CHR ''-'' \<or> c = CHR ''+'');
          r0 = (if signed then drop 1 s else s)
      in if take 8 r0 = ''Infinity'' then DInf neg
         else
           let ip = takeWhile isDigit r0;
               r1 = dropWhile isDigit r0;
               pointed = (case r1 of [] \<Rightarrow> False | c # t \<Rightarrow> c = CHR ''.'');
               fp = (if pointed then takeWhile isDigit (drop 1 r1) else []);
               r2 = (if pointed then dropWhile isDigit (drop 1 r1) else r1)
           in if ip = [] \<and> fp = [] then DNaN
              else
                let ex = parseExponent r2 - int (length fp);
                    digits = readNat (ip @ fp)
                in if 0 \<le> ex then roundToDouble neg (digits * 10 ^ nat ex) 1
                   else roundToDouble neg digits (10 ^ nat (- ex)))"

text \<open>
  \<^verbatim>\<open>Number.prototype.toString\<close> for a double of at least \<open>10^21\<close>, the only case
  \<^verbatim>\<open>toFixed\<close> hands over to it: the shortest digit string that rounds back to the same
  double, nearest to it when there are two, in exponent notation. \<open>x\<close> is the value,
  an integer; \<open>d\<close> is the number of its decimal digits; \<open>k\<close> is the number of digits
  tried. Seventeen digits always suffice. \<open>integral m e\<close> is the value of a double
  that is an integer.
\<close>

definition integral :: "nat \<Rightarrow> int \<Rightarrow> nat" where
  "integral m e = (if 0 \<le> e then m * 2 ^ nat e else m div 2 ^ nat (- e))"

definition roundsTo :: "nat \<Rightarrow> nat \<Rightarrow> bool" where
  "roundsTo v x =
     (case roundToDouble False v 1 of
        Dbl b m e \<Rightarrow> integral m e = x
      | DInf b \<Rightarrow> False
      | DNaN \<Rightarrow> False)"

definition nearer :: "nat \<Rightarrow> nat \<Rightarrow> nat \<Rightarrow> nat \<Rightarrow> nat" where
  "nearer x p lo hi =
     (let dlo = x - lo * p; dhi = hi * p - x
      in if dlo < dhi then lo * p else if dhi < dlo then hi * p
         else if even lo then lo * p else hi * p)"

fun shortest :: "nat \<Rightarrow> nat \<Rightarrow> nat \<Rightarrow> nat \<Rightarrow> nat" where
  "shortest x d k 0 = x"
| "shortest x d k (Suc fuel) =
     (let p = 10 ^ (d - k); lo = x div p; hi = lo + 1
      in if roundsTo (lo * p) x \<and> roundsTo (hi * p) x then nearer x p lo hi
         else if roundsTo (lo * p) x then lo * p
         else if roundsTo (hi * p) x then hi * p
         else shortest x d (Suc k) fuel)"

definition exponential :: "nat \<Rightarrow> string" where
  "exponential x =
     (let v = shortest x (length (showNat x)) 1 17;
          ds = showNat v;
          sig = rev (dropWhile (\<lambda>c. c = CHR ''0'') (rev ds))
      in (if length sig = 1 then sig else take 1 sig @ ''.'' @ drop 1 sig)
         @ ''e+'' @ showNat (length ds - 1))"

text \<open>
  \<^verbatim>\<open>x.toFixed(f)\<close>. Not-a-number and the infinities print as such. A value of at least
  \<open>10^21\<close> prints in exponent notation. Otherwise \<open>n\<close> is the integer nearest to
  \<open>x * 10^f\<close>, the larger one on a tie, printed with at least one digit before the point
  and \<open>f\<close> digits after it. The sign is printed for a negative value, not for a negative
  zero.
\<close>

definition atLeast1e21 :: "nat \<Rightarrow> int \<Rightarrow> bool" where
  "atLeast1e21 m e =
     (if 0 \<le> e then 10 ^ 21 \<le> m * 2 ^ nat e else 10 ^ 21 * 2 ^ nat (- e) \<le> m)"

definition fixedDigits :: "nat \<Rightarrow> int \<Rightarrow> nat \<Rightarrow> nat" where
  "fixedDigits m e f =
     (if 0 \<le> e then m * 2 ^ nat e * 10 ^ f
      else (2 * (m * 10 ^ f) + 2 ^ nat (- e)) div (2 * 2 ^ nat (- e)))"

definition pointAt :: "string \<Rightarrow> nat \<Rightarrow> string" where
  "pointAt ds f =
     (if f = 0 then ds
      else
        let padded = (if length ds \<le> f then replicate (f + 1 - length ds) (CHR ''0'') @ ds else ds);
            k = length padded
        in take (k - f) padded @ ''.'' @ drop (k - f) padded)"

definition toFixed :: "double \<Rightarrow> nat \<Rightarrow> string" where
  "toFixed x f =
     (case x of
        DNaN \<Rightarrow> ''NaN''
      | DInf neg \<Rightarrow> (if neg then ''-Infinity'' else ''Infinity'')
      | Dbl neg m e \<Rightarrow>
          (if atLeast1e21 m e then (if neg then ''-'' else '''') @ exponential (integral m e)
           else (if neg \<and> m \<noteq> 0 then ''-'' else '''') @ pointAt (showNat (fixedDigits m e f)) f))"

text \<open>
  What reading the four-decimal print of a double back at 18 decimals gives: the rounded
  digits times \<open>10^14\<close>, with the sign; nothing when the print is in exponent notation
  or is not a number.
\<close>

definition displayedWei :: "double \<Rightarrow> int option" where
  "displayedWei x =
     (case x of
        DNaN \<Rightarrow> None
      | DInf neg \<Rightarrow> None
      | Dbl neg m e \<Rightarrow>
          if atLeast1e21 m e then None
          else Some (if neg then - (int (fixedDigits m e 4) * 10 ^ 14)
                     else int (fixedDigits m e 4) * 10 ^ 14))"

text \<open>
  A JavaScript number that \<^verbatim>\<open>parseInt\<close> can return: not-a-number, an infinity
  (\<open>True\<close> is the negative one) or an integral double, kept as the integer it is. A
  negative zero is not told apart from zero.
\<close>

datatype js_number = NaN | Infinity bool | Num int

text \<open>
  \<^verbatim>\<open>parseInt(string, radix)\<close>; radix \<open>0\<close> stands for a missing radix. After leading
  white space and a sign, the longest prefix of digits of the radix is read (radix 16
  when the prefix \<^verbatim>\<open>0x\<close> is there and the radix is missing or 16) and rounded to a
  double; no digit gives not-a-number.
\<close>

definition radixDigit :: "char \<Rightarrow> nat" where
  "radixDigit c =
     (let n = (of_char c :: nat)
      in if 48 \<le> n \<and> n \<le> 57 then n - 48
         else if 97 \<le> n \<and> n \<le> 122 then n - 87
         else if 65 \<le> n \<and> n \<le> 90 then n - 55
         else 36)"

definition readRadix :: "nat \<Rightarrow> string \<Rightarrow> nat" where
  "readRadix r s = foldl (\<lambda>n c. r * n + radixDigit c) 0 s"

definition toIntegralDouble :: "bool \<Rightarrow> nat \<Rightarrow> js_number" where
  "toIntegralDouble neg n =
     (case roundToDouble neg n 1 of
        Dbl b m e \<Rightarrow> (if neg then Num (- int (integral m e)) else Num (int (integral m e)))
      | DInf b \<Rightarrow> Infinity neg
      | DNaN \<Rightarrow> NaN)"

definition parseInt :: "string \<Rightarrow> nat \<Rightarrow> js_number" where
  "parseInt str radix =
     (let s = dropWhile isSpace str;
          neg = (case s of [] \<Rightarrow> False | c # t \<Rightarrow> c = CHR ''-'');
          signed = (case s of [] \<Rightarrow> False | c # t \<Rightarrow> c = CHR ''-'' \<or> c = CHR ''+'');
          r0 = (if signed then drop 1 s else s)
      in if radix \<noteq> 0 \<and> (radix < 2 \<or> 36 < radix) then NaN
         else
           let hex = ((radix = 0 \<or> radix = 16) \<and> (take 2 r0 = ''0x'' \<or> take 2 r0 = ''0X''));
               r = (if hex then 16 else if radix = 0 then 10 else radix);
               z = takeWhile (\<lambda>c. radixDigit c < r) (if hex then drop 2 r0 else r0)
           in if z = [] then NaN else toIntegralDouble neg (readRadix r z))"

text \<open>
  \<^verbatim>\<open>BigInt(value)\<close> of a string: white space is trimmed at both ends, the empty string is
  zero, a decimal numeral may carry a sign, a numeral with prefix \<^verbatim>\<open>0x\<close>, \<^verbatim>\<open>0o\<close> or
  \<^verbatim>\<open>0b\<close> may not; anything else throws a \<^verbatim>\<open>SyntaxError\<close> (\<open>None\<close>). Of a number:
  the integer itself, and a \<^verbatim>\<open>RangeError\<close> for not-a-number and the infinities.
\<close>

definition prefixRadix :: "string \<Rightarrow> nat" where
  "prefixRadix s =
     (if take 2 s = ''0x'' \<or> take 2 s = ''0X'' then 16
      else if take 2 s = ''0o'' \<or> take 2 s = ''0O'' then 8
      else if take 2 s = ''0b'' \<or> take 2 s = ''0B'' then 2
      else 10)"

definition BigInt :: "string \<Rightarrow> int option" where
  "BigInt str =
     (let s = rev (dropWhile isSpace (rev (dropWhile isSpace str)));
          r = prefixRadix s
      in if s = [] then Some 0
         else if r \<noteq> 10 then
           (let ds = drop 2 s
            in if ds \<noteq> [] \<and> list_all (\<lambda>c. radixDigit c < r) ds then Some (int (readRadix r ds))
               else None)
         else
           let neg = (hd s = CHR ''-'');
               ds = (if hd s = CHR ''-'' \<or> hd s = CHR ''+'' then tl s else s)
           in if ds \<noteq> [] \<and> list_all isDigit ds
              then Some (if neg then - int (readNat ds) else int (readNat ds))
              else None)"

definition BigIntOfNumber :: "js_number \<Rightarrow> int option" where
  "BigIntOfNumber x = (case x of Num n \<Rightarrow> Some n | Infinity b \<Rightarrow> None | NaN \<Rightarrow> None)"

section \<open>The page state and its surroundings\<close>

text \<open>
  A value caught by a \<^verbatim>\<open>catch\<close>: whether it is an instance of \<^verbatim>\<open>Error\<close>, its
  \<^verbatim>\<open>message\<close>, and its numeric \<^verbatim>\<open>code\<close> when it has one (the wallet's provider
  errors do).
\<close>

datatype thrown = Thrown (isError: bool) (message: string) (code: "int option")

text \<open>The raw record of the explorer API (\<^verbatim>\<open>interface BSCTransaction\<close>).\<close>

record BSCTransaction =
  bsc_hash :: string
  bsc_from :: string
  bsc_to :: string
  bsc_value :: string
  bsc_timeStamp :: string

text \<open>The stored record (\<^verbatim>\<open>interface Transaction\<close>).\<close>

record Transaction =
  tx_hash :: string
  tx_from :: string
  tx_to :: string
  tx_value :: int
  tx_timestamp :: js_number

text \<open>The shape of \<^verbatim>\<open>OPBNB_TESTNET_CONFIG\<close> (lines 63 to 75).\<close>

record NativeCurrency =
  cur_name :: string
  cur_symbol :: string
  cur_decimals :: nat

record ChainConfig =
  chainId :: string
  chainName :: string
  nativeCurrency :: NativeCurrency
  rpcUrls :: "string list"
  blockExplorerUrls :: "string list"

text \<open>
  What the page does to the outside, in order: requests to the injected wallet provider
  (the method and its one parameter), queries and signing through the ethers provider,
  the explorer fetch, console output.
\<close>

datatype request_params = ChainIdParam string | ChainConfigParam ChainConfig

datatype effect =
    ProviderRequest string request_params
  | GetNetwork
  | GetBalance string
  | GetSigner
  | SendTransaction string int
  | Wait string
  | Fetch string
  | ConsoleError string

text \<open>
  The body of the explorer's answer: \<^verbatim>\<open>data.status\<close> and \<^verbatim>\<open>data.result\<close>, which
  is an array of raw records or something else (the service puts a message string there
  when it refuses).
\<close>

datatype api_result = ResultArray "BSCTransaction list" | ResultOther string

record api_response =
  status :: string
  result :: api_result

text \<open>
  The \<^verbatim>\<open>useState\<close> slots of the component (lines 51 to 61), and the trace of its
  effects so far.
\<close>

record page =
  account :: string
  connected :: bool
  error :: string
  balance :: string
  networkError :: string
  recipientAddress :: string
  amount :: string
  isLoading :: bool
  txStatus :: string
  txHash :: string
  transactions :: "Transaction list"
  effects :: "effect list"

text \<open>
  Everything the page does not compute itself: whether \<^verbatim>\<open>window.ethereum\<close> exists, what
  each wallet, node and explorer call answers (\<open>Inl\<close> is a rejected promise), the two
  environment variables, and \<^verbatim>\<open>ethers.isAddress\<close>, whose checksum rule needs a hash
  function and is left open.
\<close>

record world =
  ethereum :: bool
  isAddress :: "string \<Rightarrow> bool"
  switchEthereumChain :: "thrown + unit"
  addEthereumChain :: "thrown + unit"
  getNetwork :: "thrown + int"
  getBalanceOf :: "string \<Rightarrow> thrown + nat"
  getSigner :: "thrown + unit"
  signerSendTransaction :: "string \<Rightarrow> int \<Rightarrow> thrown + string"
  transactionWait :: "string \<Rightarrow> thrown + unit"
  NEXT_PUBLIC_RPC_URL :: "string option"
  NEXT_PUBLIC_SCAN :: "string option"
  fetchJson :: "string \<Rightarrow> thrown + api_response"

definition emit :: "effect \<Rightarrow> page \<Rightarrow> page" where
  "emit e s = s\<lparr>effects := effects s @ [e]\<rparr>"

text \<open>An environment variable inside a template literal.\<close>

definition envString :: "string option \<Rightarrow> string" where
  "envString v = (case v of None \<Rightarrow> ''undefined'' | Some k \<Rightarrow> k)"

definition OPBNB_TESTNET_CONFIG :: "world \<Rightarrow> ChainConfig" where
  "OPBNB_TESTNET_CONFIG w =
     \<lparr>chainId = ''0x15eb'', chainName = ''opBNB Testnet'',
      nativeCurrency = \<lparr>cur_name = ''tBNB'', cur_symbol = ''tBNB'', cur_decimals = 18\<rparr>,
      rpcUrls = [''https://opbnb-testnet.infura.io/v3/'' @ envString (NEXT_PUBLIC_RPC_URL w)],
      blockExplorerUrls = [''https://testnet.opbnbscan.com/'']\<rparr>"

section \<open>validateTransaction\<close>

text \<open>
  Lines 124 to 146. The state setter \<^verbatim>\<open>setError\<close> is last-write-wins, so the first
  \<^verbatim>\<open>setError("")\<close> survives only on the successful path. Both \<^verbatim>\<open>parseUnits\<close> calls
  sit in one \<^verbatim>\<open>try\<close> whose \<^verbatim>\<open>catch\<close> reports "Invalid amount".
\<close>

definition validateTransaction :: "world \<Rightarrow> page \<Rightarrow> page \<times> bool" where
  "validateTransaction w s =
     (let s0 = s\<lparr>error := ''''\<rparr> in
      if \<not> isAddress w (recipientAddress s) then
        (s0\<lparr>error := ''Invalid recipient address''\<rparr>, False)
      else
        (case parseUnits (amount s) ''wei'' of
          None \<Rightarrow> (s0\<lparr>error := ''Invalid amount''\<rparr>, False)
        | Some amountWei \<Rightarrow>
            if amountWei \<le> 0 then
              (s0\<lparr>error := ''Amount must be greater than 0''\<rparr>, False)
            else
              (case parseUnits (balance s) ''ether'' of
                None \<Rightarrow> (s0\<lparr>error := ''Invalid amount''\<rparr>, False)
              | Some balanceWei \<Rightarrow>
                  if amountWei > balanceWei then
                    (s0\<lparr>error := ''Insufficient balance''\<rparr>, False)
                  else (s0, True))))"

text \<open>
  The outcome the user sees: \<open>None\<close> when validation passes, and the recorded message
  otherwise. The specification's names for the four messages follow.
\<close>

definition verdict :: "world \<Rightarrow> page \<Rightarrow> string option" where
  "verdict w s = (case validateTransaction w s of (s', ok) \<Rightarrow> if ok then None else Some (error s'))"

definition InvalidRecipient :: string where
  "InvalidRecipient = ''Invalid recipient address''"

definition InvalidAmount :: string where
  "InvalidAmount = ''Invalid amount''"

definition AmountNotPositive :: string where
  "AmountNotPositive = ''Amount must be greater than 0''"

definition InsufficientBalance :: string where
  "InsufficientBalance = ''Insufficient balance''"

section \<open>checkAndSwitchNetwork\<close>

text \<open>
  Lines 77 to 101. The inner \<^verbatim>\<open>catch\<close> looks at the code of what the switch request
  threw; whatever leaves the inner block lands in the outer \<^verbatim>\<open>catch\<close>.
\<close>

definition switchFailed :: string where
  "switchFailed = ''Failed to switch to opBNB Testnet. Please switch manually.''"

definition checkAndSwitchNetwork :: "world \<Rightarrow> page \<Rightarrow> page" where
  "checkAndSwitchNetwork w s =
     (if \<not> ethereum w then s
      else
        let s1 = emit (ProviderRequest ''wallet_switchEthereumChain''
                         (ChainIdParam (chainId (OPBNB_TESTNET_CONFIG w)))) s
        in case switchEthereumChain w of
             Inr u \<Rightarrow> s1\<lparr>networkError := ''''\<rparr>
           | Inl switchError \<Rightarrow>
               if code switchError = Some 4902 then
                 (let s2 = emit (ProviderRequest ''wallet_addEthereumChain''
                                   (ChainConfigParam (OPBNB_TESTNET_CONFIG w))) s1
                  in case addEthereumChain w of
                       Inr u \<Rightarrow> s2\<lparr>networkError := ''''\<rparr>
                     | Inl addError \<Rightarrow> s2\<lparr>networkError := switchFailed\<rparr>)
               else s1\<lparr>networkError := switchFailed\<rparr>)"

section \<open>getBalance\<close>

text \<open>
  Lines 103 to 122. Every throw inside the \<^verbatim>\<open>try\<close> is logged and stores the sentinel
  \<^verbatim>\<open>"Error"\<close>. The stored balance is the node's answer formatted as ether, read as a
  double, and printed with four decimals.
\<close>

definition balanceFailed :: "page \<Rightarrow> page" where
  "balanceFailed s = (emit (ConsoleError ''Error fetching balance:'') s)\<lparr>balance := ''Error''\<rparr>"

definition getBalance :: "world \<Rightarrow> string \<Rightarrow> page \<Rightarrow> page" where
  "getBalance w address s =
     (if \<not> ethereum w then s
      else
        let s1 = emit GetNetwork s
        in case getNetwork w of
             Inl err \<Rightarrow> balanceFailed s1
           | Inr networkChainId \<Rightarrow>
               (case BigIntOfNumber (parseInt (chainId (OPBNB_TESTNET_CONFIG w)) 16) of
                  None \<Rightarrow> balanceFailed s1
                | Some required \<Rightarrow>
                    if networkChainId \<noteq> required then
                      s1\<lparr>networkError := ''Please switch to opBNB Testnet''\<rparr>
                    else
                      (let s2 = emit (GetBalance address) s1
                       in case getBalanceOf w address of
                            Inl err \<Rightarrow> balanceFailed s2
                          | Inr balanceWei \<Rightarrow>
                              (case formatEther (int balanceWei) of
                                 None \<Rightarrow> balanceFailed s2
                               | Some balanceEth \<Rightarrow>
                                   s2\<lparr>balance := toFixed (parseFloat balanceEth) 4,
                                      networkError := ''''\<rparr>))))"

text \<open>
  The two requests \<^verbatim>\<open>checkAndSwitchNetwork\<close> can issue, and the test of the inner
  \<^verbatim>\<open>catch\<close>: the switch request was rejected with code 4902 (the wallet does not know
  the chain).
\<close>

definition switchRequest :: "world \<Rightarrow> effect" where
  "switchRequest w =
     ProviderRequest ''wallet_switchEthereumChain'' (ChainIdParam (chainId (OPBNB_TESTNET_CONFIG w)))"

definition addRequest :: "world \<Rightarrow> effect" where
  "addRequest w = ProviderRequest ''wallet_addEthereumChain'' (ChainConfigParam (OPBNB_TESTNET_CONFIG w))"

definition networkUnknown :: "world \<Rightarrow> bool" where
  "networkUnknown w =
     (case switchEthereumChain w of Inl switchError \<Rightarrow> code switchError = Some 4902 | Inr u \<Rightarrow> False)"

definition networkEnsured :: "world \<Rightarrow> bool" where
  "networkEnsured w =
     (switchEthereumChain w = Inr () \<or> (networkUnknown w \<and> addEthereumChain w = Inr ()))"

section \<open>sendTransaction\<close>

text \<open>
  Lines 173 to 215. \<open>transactionFailed\<close> is the \<^verbatim>\<open>catch\<close> block, and the
  \<^verbatim>\<open>finally\<close> block resets \<^verbatim>\<open>isLoading\<close> on every path that entered the
  \<^verbatim>\<open>try\<close>. The handler reads \<^verbatim>\<open>recipientAddress\<close>, \<^verbatim>\<open>amount\<close> and
  \<^verbatim>\<open>account\<close> as they were when it started. The second \<^verbatim>\<open>parseUnits\<close> of the amount
  (line 190) cannot throw after a passed validation; its branch is there for totality.
\<close>

definition transactionFailed :: "thrown \<Rightarrow> page \<Rightarrow> page" where
  "transactionFailed err s =
     (emit (ConsoleError ''Transaction error:'') s)
       \<lparr>error := (if isError err then message err else ''Transaction failed''),
        txStatus := ''Transaction failed!''\<rparr>"

definition attemptTransfer :: "world \<Rightarrow> page \<Rightarrow> page \<Rightarrow> page" where
  "attemptTransfer w s s1 =
     (if \<not> ethereum w then transactionFailed (Thrown True ''No wallet found!'' None) s1
      else
        let s2 = emit GetSigner s1
        in case getSigner w of
             Inl err \<Rightarrow> transactionFailed err s2
           | Inr signer \<Rightarrow>
               (case parseUnits (amount s) ''wei'' of
                  None \<Rightarrow> transactionFailed (Thrown True ''invalid FixedNumber string value'' None) s2
                | Some v \<Rightarrow>
                    (let s3 = emit (SendTransaction (recipientAddress s) v)
                                (s2\<lparr>txStatus := ''Please confirm the transaction in your wallet...''\<rparr>)
                     in case signerSendTransaction w (recipientAddress s) v of
                          Inl err \<Rightarrow> transactionFailed err s3
                        | Inr h \<Rightarrow>
                            (let s4 = emit (Wait h)
                                        (s3\<lparr>txStatus := ''Transaction submitted! Waiting for confirmation...'',
                                            txHash := h\<rparr>)
                             in case transactionWait w h of
                                  Inl err \<Rightarrow> transactionFailed err s4
                                | Inr receipt \<Rightarrow>
                                    (getBalance w (account s)
                                       (s4\<lparr>txStatus := ''Transaction confirmed!''\<rparr>))
                                      \<lparr>amount := '''', recipientAddress := ''''\<rparr>))))"

definition sendTransaction :: "world \<Rightarrow> page \<Rightarrow> page" where
  "sendTransaction w s =
     (case validateTransaction w s of
        (s', ok) \<Rightarrow>
          if \<not> ok then s'
          else
            (attemptTransfer w s
               (s'\<lparr>isLoading := True, txStatus := ''Initiating transaction...'', txHash := ''''\<rparr>))
              \<lparr>isLoading := False\<rparr>)"

section \<open>The provider's accountsChanged event\<close>


section \<open>getLastTransactions\<close>

text \<open>
  Lines 280 to 305. The callback of \<^verbatim>\<open>data.result.map\<close> is \<open>formatTx\<close>; a
  \<^verbatim>\<open>BigInt\<close> that throws ends the whole \<^verbatim>\<open>map\<close>, and the \<^verbatim>\<open>catch\<close> logs it. A
  rejected fetch, a body that is not JSON and a body without fields (\<^verbatim>\<open>null\<close>) land in
  the same \<^verbatim>\<open>catch\<close>: they are the \<open>Inl\<close> answers of \<open>fetchJson\<close>. A missing or
  empty API key is logged before anything is requested. The fields of the raw records are
  strings, as \<^verbatim>\<open>interface BSCTransaction\<close> declares them.
\<close>

definition formatTx :: "BSCTransaction \<Rightarrow> Transaction option" where
  "formatTx tx =
     (case BigInt (bsc_value tx) of
        None \<Rightarrow> None
      | Some v \<Rightarrow>
          Some \<lparr>tx_hash = bsc_hash tx, tx_from = bsc_from tx, tx_to = bsc_to tx,
                tx_value = v, tx_timestamp = parseInt (bsc_timeStamp tx) 0\<rparr>)"

fun formatTxs :: "BSCTransaction list \<Rightarrow> Transaction list option" where
  "formatTxs [] = Some []"
| "formatTxs (tx # rest) =
     (case formatTx tx of
        None \<Rightarrow> None
      | Some t \<Rightarrow> (case formatTxs rest of None \<Rightarrow> None | Some ts \<Rightarrow> Some (t # ts)))"

definition txlistUrl :: "string \<Rightarrow> string \<Rightarrow> string" where
  "txlistUrl address key =
     ''https://api-testnet.bscscan.com/api?module=account&action=txlist&address='' @ address
     @ ''&startblock=0&endblock=99999999&page=1&offset=5&sort=desc&apikey='' @ key"

definition isArray :: "api_result \<Rightarrow> bool" where
  "isArray r = (case r of ResultArray xs \<Rightarrow> True | ResultOther x \<Rightarrow> False)"

definition getLastTransactions :: "world \<Rightarrow> string \<Rightarrow> page \<Rightarrow> page" where
  "getLastTransactions w address s =
     (if NEXT_PUBLIC_SCAN w = None \<or> NEXT_PUBLIC_SCAN w = Some '''' then
        emit (ConsoleError ''BSC API key not found'') s
      else
        let url = txlistUrl address (envString (NEXT_PUBLIC_SCAN w));
            s1 = emit (Fetch url) s
        in case fetchJson w url of
             Inl err \<Rightarrow> emit (ConsoleError ''Error fetching transactions:'') s1
           | Inr data \<Rightarrow>
               if status data = ''1'' \<and> isArray (result data) then
                 (case result data of
                    ResultOther x \<Rightarrow> s1
                  | ResultArray raw \<Rightarrow>
                      (case formatTxs raw of
                         None \<Rightarrow> emit (ConsoleError ''Error fetching transactions:'') s1
                       | Some formattedTxs \<Rightarrow> s1\<lparr>transactions := formattedTxs\<rparr>))
               else s1)"

text \<open>
  Most recent first: each time stamp is a number not less than the next one.
\<close>

definition notEarlier :: "js_number \<Rightarrow> js_number \<Rightarrow> bool" where
  "notEarlier a b = (case a of Num x \<Rightarrow> (case b of Num y \<Rightarrow> y \<le> x | Infinity n \<Rightarrow> False | NaN \<Rightarrow> False)
                     | Infinity n \<Rightarrow> False | NaN \<Rightarrow> False)"

definition recentFirst :: "js_number list \<Rightarrow> bool" where
  "recentFirst ts = sorted_wrt notEarlier ts"

definition keyPresent :: "world \<Rightarrow> bool" where
  "keyPresent w = (\<not> (NEXT_PUBLIC_SCAN w = None \<or> NEXT_PUBLIC_SCAN w = Some ''''))"

section \<open>Sample surroundings\<close>

text \<open>
  The initial values of the \<^verbatim>\<open>useState\<close> slots (lines 51 to 61).
\<close>

definition initialPage :: page where
  "initialPage =
     \<lparr>account = '''', connected = False, error = '''', balance = ''0'', networkError = '''',
      recipientAddress = '''', amount = '''', isLoading = False, txStatus = '''', txHash = '''',
      transactions = [], effects = []\<rparr>"

text \<open>
  The part of \<^verbatim>\<open>ethers.isAddress\<close> that is decided without hashing: forty hexadecimal
  digits, with or without the prefix \<^verbatim>\<open>0x\<close>, whose letters are not of mixed case. The
  library accepts every such string; it also accepts mixed-case strings with a correct
  checksum, which this predicate leaves out.
\<close>

definition isHexDigit :: "char \<Rightarrow> bool" where
  "isHexDigit c =
     (isDigit c \<or> (97 \<le> (of_char c :: nat) \<and> (of_char c :: nat) \<le> 102)
                \<or> (65 \<le> (of_char c :: nat) \<and> (of_char c :: nat) \<le> 70))"

definition plainHexAddress :: "string \<Rightarrow> bool" where
  "plainHexAddress a =
     (let h = (if take 2 a = ''0x'' then drop 2 a else a)
      in length h = 40 \<and> list_all isHexDigit h
         \<and> \<not> (list_ex (\<lambda>c. 65 \<le> (of_char c :: nat) \<and> (of_char c :: nat) \<le> 70) h
              \<and> list_ex (\<lambda>c. 97 \<le> (of_char c :: nat) \<and> (of_char c :: nat) \<le> 102) h))"

definition zeroAddress :: string where
  "zeroAddress = ''0x0000000000000000000000000000000000000000''"

text \<open>
  A wallet on the required network that grants every request, an account holding one
  ether, and an explorer with no history.
\<close>

definition sampleWorld :: world where
  "sampleWorld =
     \<lparr>ethereum = True, isAddress = plainHexAddress,
      switchEthereumChain = Inr (), addEthereumChain = Inr (),
      getNetwork = Inr 5611, getBalanceOf = (\<lambda>a. Inr (10 ^ 18)),
      getSigner = Inr (), signerSendTransaction = (\<lambda>t v. Inr ''0xabc''),
      transactionWait = (\<lambda>h. Inr ()),
      NEXT_PUBLIC_RPC_URL = Some ''rpc-key'', NEXT_PUBLIC_SCAN = Some ''scan-key'',
      fetchJson = (\<lambda>u. Inr \<lparr>status = ''1'', result = ResultArray []\<rparr>)\<rparr>"

text \<open>The initial page with the form filled in and a given stored balance.\<close>

definition formPage :: "string \<Rightarrow> string \<Rightarrow> string \<Rightarrow> page" where
  "formPage r a b = initialPage\<lparr>recipientAddress := r, amount := a, balance := b\<rparr>"

text \<open>The raw record of the specification's round-trip example.\<close>

definition examplePayload :: BSCTransaction where
  "examplePayload =
     \<lparr>bsc_hash = ''0xabc'', bsc_from = ''0x1'', bsc_to = ''0x2'',
      bsc_value = ''1000000000000000000'', bsc_timeStamp = ''1700000000''\<rparr>"

text \<open>A raw record that moves nothing, with a given time stamp.\<close>

definition rawAt :: "string \<Rightarrow> BSCTransaction" where
  "rawAt t = \<lparr>bsc_hash = ''0xabc'', bsc_from = ''0x1'', bsc_to = ''0x2'', bsc_value = ''0'', bsc_timeStamp = t\<rparr>"

text \<open>An explorer that answers every request with the given body.\<close>

definition explorerAnswers :: "api_response \<Rightarrow> world" where
  "explorerAnswers data = sampleWorld\<lparr>fetchJson := (\<lambda>u. Inr data)\<rparr>"

text \<open>
  A wallet that does not know the chain, one whose user rejects the switch, one whose
  user rejects the transfer, a node that reports a balance of one wei, and one that
  reports \<open>5 * 10^13\<close> wei (half of the last displayed digit).
\<close>

definition unknownChainWorld :: world where
  "unknownChainWorld =
     sampleWorld\<lparr>switchEthereumChain := Inl (Thrown True ''Unrecognized chain ID'' (Some 4902))\<rparr>"

definition rejectedSwitchWorld :: world where
  "rejectedSwitchWorld =
     sampleWorld\<lparr>switchEthereumChain := Inl (Thrown True ''User rejected the request.'' (Some 4001))\<rparr>"

definition rejectedTransferWorld :: world where
  "rejectedTransferWorld =
     sampleWorld\<lparr>signerSendTransaction := (\<lambda>t v. Inl (Thrown True ''user rejected action'' (Some 4001)))\<rparr>"


definition halfTickWorld :: world where
  "halfTickWorld = sampleWorld\<lparr>getBalanceOf := (\<lambda>a. Inr 50000000000000)\<rparr>"



definition exampleAnswer :: api_response where
  "exampleAnswer = \<lparr>status = ''1'', result = ResultArray [examplePayload]\<rparr>"

definition sixRecords :: api_response where
  "sixRecords =
     \<lparr>status = ''1'',
      result = ResultArray [rawAt ''6'', rawAt ''5'', rawAt ''4'', rawAt ''3'', rawAt ''2'', rawAt ''1'']\<rparr>"

definition oldestFirst :: api_response where
  "oldestFirst = \<lparr>status = ''1'', result = ResultArray [rawAt ''1'', rawAt ''2'']\<rparr>"

definition newestFirst :: api_response where
  "newestFirst = \<lparr>status = ''1'', result = ResultArray [rawAt ''2'', rawAt ''1'']\<rparr>"

definition staleRecord :: Transaction where
  "staleRecord =
     \<lparr>tx_hash = ''0xold'', tx_from = ''0x3'', tx_to = ''0x4'', tx_value = 7, tx_timestamp = Num 1600000000\<rparr>"

definition stalePage :: page where
  "stalePage = initialPage\<lparr>transactions := [staleRecord], networkError := ''stale''\<rparr>"

text \<open>A node that reports \<open>10^39\<close> wei, that is \<open>10^21\<close> ether.\<close>

definition hugeWorld :: world where
  "hugeWorld = sampleWorld\<lparr>getBalanceOf := (\<lambda>a. Inr 1000000000000000000000000000000000000000)\<rparr>"

section \<open>Evaluation lemmas\<close>

lemma replicate_numeral: "replicate (numeral k) x = x # replicate (pred_numeral k) x"
  by (simp add: numeral_eq_Suc)

lemmas parse_eval = parseUnits_def names_def fromString_def matchNumber_def isDigit_def
  readNat_def digitVal_def allZeros_def Let_def replicate_numeral

lemma parseUnits_one_wei: "parseUnits ''1'' ''wei'' = Some 1"
  by (simp add: parse_eval)

lemma parseUnits_zero_wei: "parseUnits ''0'' ''wei'' = Some 0"
  by (simp add: parse_eval)

lemma parseUnits_abc_wei: "parseUnits ''abc'' ''wei'' = None"
  by (simp add: parse_eval)

lemma parseUnits_Error: "parseUnits ''Error'' ''ether'' = None"
  by (simp add: parse_eval)

lemma parseUnits_one_ether: "parseUnits ''1.0000'' ''ether'' = Some 1000000000000000000"
  by (simp add: parse_eval)

lemma parseUnits_zero_ether: "parseUnits ''0.0000'' ''ether'' = Some 0"
  by (simp add: parse_eval)

lemma isAddress_zeroAddress: "isAddress sampleWorld zeroAddress"
  by (simp add: sampleWorld_def plainHexAddress_def zeroAddress_def isHexDigit_def isDigit_def)

lemma not_isAddress_empty: "\<not> isAddress sampleWorld ''''"
  by (simp add: sampleWorld_def plainHexAddress_def)

lemma formPage_fields [simp]:
  "recipientAddress (formPage r a b) = r"
  "amount (formPage r a b) = a"
  "balance (formPage r a b) = b"
  by (simp_all add: formPage_def)

section \<open>The order of the validation checks\<close>

lemma verdict_cases:
  "verdict w s =
     (if \<not> isAddress w (recipientAddress s) then Some InvalidRecipient
      else case parseUnits (amount s) ''wei'' of
             None \<Rightarrow> Some InvalidAmount
           | Some a \<Rightarrow>
               if a \<le> 0 then Some AmountNotPositive
               else (case parseUnits (balance s) ''ether'' of
                       None \<Rightarrow> Some InvalidAmount
                     | Some b \<Rightarrow> if a > b then Some InsufficientBalance else None))"
  by (simp add: verdict_def validateTransaction_def Let_def InvalidRecipient_def InvalidAmount_def
      AmountNotPositive_def InsufficientBalance_def split: option.splits)

section \<open>Evaluating the number conversions\<close>

lemmas int_eval = parseInt_def isSpace_def radixDigit_def readRadix_def toIntegralDouble_def
  roundToDouble_def scaled_def roundHalfEven_def integral_def bitLength.simps Let_def

lemmas bigint_eval = BigInt_def isSpace_def prefixRadix_def radixDigit_def readRadix_def
  isDigit_def readNat_def digitVal_def Let_def

lemmas format_eval = formatEther_def formatUnits_def toStringFixed_def showNat.simps
  padWhole.simps digitChar_def Let_def

lemma parseInt_example: "parseInt ''1700000000'' 0 = Num 1700000000"
  by (simp add: int_eval)


lemma BigInt_example: "BigInt ''1000000000000000000'' = Some 1000000000000000000"
  by (simp add: bigint_eval)

lemma BigInt_zero: "BigInt ''0'' = Some 0"
  by (simp add: bigint_eval)

lemma formatEther_example: "formatEther 1000000000000000000 = Some ''1.0''"
  by (simp add: format_eval)


section \<open>Frame lemmas for the handlers\<close>



lemma transactionFailed_fields [simp]:
  "txStatus (transactionFailed e s) = ''Transaction failed!''"
  "amount (transactionFailed e s) = amount s"
  "recipientAddress (transactionFailed e s) = recipientAddress s"
  by (simp_all add: transactionFailed_def emit_def)

section \<open>Printing and reading decimal digits\<close>




















section \<open>Evaluating doubles\<close>

lemmas float_eval = parseFloat_def parseExponent_def isSpace_def isDigit_def readNat_def
  digitVal_def Let_def

lemmas double_eval = roundToDouble_def scaled_def roundHalfEven_def bitLength.simps Let_def

lemmas fixed_eval = toFixed_def atLeast1e21_def fixedDigits_def pointAt_def showNat.simps
  digitChar_def Let_def replicate_numeral

lemma parseFloat_one_digits: "parseFloat ''1.0'' = roundToDouble False 10 10"
  by (simp add: float_eval)

lemma roundToDouble_one: "roundToDouble False 10 10 = Dbl False 4503599627370496 (- 52)"
  by (simp add: double_eval)

lemma parseFloat_one: "parseFloat ''1.0'' = Dbl False 4503599627370496 (- 52)"
  by (simp only: parseFloat_one_digits roundToDouble_one)







lemma toFixed_one: "toFixed (Dbl False 4503599627370496 (- 52)) 4 = ''1.0000''"
  by (simp add: fixed_eval)






section \<open>The balance refresh\<close>




lemma halfTickWorld_fields [simp]:
  "ethereum halfTickWorld"
  "getNetwork halfTickWorld = Inr 5611"
  "getBalanceOf halfTickWorld a = Inr 50000000000000"
  "isAddress halfTickWorld = isAddress sampleWorld"
  by (simp_all add: halfTickWorld_def sampleWorld_def)



section \<open>The history fetch\<close>

lemma formatTx_example:
  "formatTx examplePayload
     = Some \<lparr>tx_hash = ''0xabc'', tx_from = ''0x1'', tx_to = ''0x2'',
             tx_value = 1000000000000000000, tx_timestamp = Num 1700000000\<rparr>"
  by (simp add: formatTx_def examplePayload_def BigInt_example parseInt_example)

lemma formatTxs_shape:
  "formatTxs raw = Some txs \<Longrightarrow>
     length txs = length raw
     \<and> map tx_timestamp txs = map (\<lambda>t. parseInt (bsc_timeStamp t) 0) raw
     \<and> map tx_hash txs = map bsc_hash raw
     \<and> map (\<lambda>t. Some (tx_value t)) txs = map (\<lambda>t. BigInt (bsc_value t)) raw"
proof (induction raw arbitrary: txs)
  case Nil
  then show ?case by simp
next
  case (Cons r raw)
  from Cons.prems obtain t ts where t: "formatTx r = Some t" and ts: "formatTxs raw = Some ts"
      and txs: "txs = t # ts"
    by (auto split: option.splits)
  from t have "tx_timestamp t = parseInt (bsc_timeStamp r) 0" "tx_hash t = bsc_hash r"
      "Some (tx_value t) = BigInt (bsc_value r)"
    by (auto simp: formatTx_def split: option.splits)
  with Cons.IH [OF ts] txs show ?case by simp
qed

lemma getLastTransactions_fetch:
  assumes "keyPresent w"
  shows "getLastTransactions w a s =
     (let url = txlistUrl a (envString (NEXT_PUBLIC_SCAN w)); s1 = emit (Fetch url) s
      in case fetchJson w url of
           Inl err \<Rightarrow> emit (ConsoleError ''Error fetching transactions:'') s1
         | Inr data \<Rightarrow>
             (case result data of
                ResultOther x \<Rightarrow> s1
              | ResultArray raw \<Rightarrow>
                  if status data = ''1'' then
                    (case formatTxs raw of
                       None \<Rightarrow> emit (ConsoleError ''Error fetching transactions:'') s1
                     | Some txs \<Rightarrow> s1\<lparr>transactions := txs\<rparr>)
                  else s1))"
  using assms
  by (auto simp: getLastTransactions_def keyPresent_def Let_def isArray_def
      split: sum.splits api_result.splits option.splits)

section \<open>The sample surroundings\<close>

lemma explorerAnswers_fields [simp]:
  "keyPresent (explorerAnswers d)"
  "fetchJson (explorerAnswers d) u = Inr d"
  "envString (NEXT_PUBLIC_SCAN (explorerAnswers d)) = ''scan-key''"
  by (simp_all add: explorerAnswers_def sampleWorld_def keyPresent_def envString_def)


lemma parseInt_1: "parseInt ''1'' 0 = Num 1"
  by (simp add: int_eval)

lemma parseInt_2: "parseInt ''2'' 0 = Num 2"
  by (simp add: int_eval)

lemma formatTx_rawAt:
  "formatTx (rawAt t)
     = Some \<lparr>tx_hash = ''0xabc'', tx_from = ''0x1'', tx_to = ''0x2'', tx_value = 0,
             tx_timestamp = parseInt t 0\<rparr>"
  by (simp add: formatTx_def rawAt_def BigInt_zero)

lemma sampleWorld_fields [simp]:
  "ethereum sampleWorld"
  "switchEthereumChain sampleWorld = Inr ()"
  "addEthereumChain sampleWorld = Inr ()"
  "getSigner sampleWorld = Inr ()"
  "signerSendTransaction sampleWorld t v = Inr ''0xabc''"
  "transactionWait sampleWorld h = Inr ()"
  by (simp_all add: sampleWorld_def)

lemma unknownChainWorld_fields [simp]:
  "ethereum unknownChainWorld"
  "switchEthereumChain unknownChainWorld = Inl (Thrown True ''Unrecognized chain ID'' (Some 4902))"
  "addEthereumChain unknownChainWorld = Inr ()"
  by (simp_all add: unknownChainWorld_def sampleWorld_def)

lemma rejectedSwitchWorld_fields [simp]:
  "ethereum rejectedSwitchWorld"
  "switchEthereumChain rejectedSwitchWorld = Inl (Thrown True ''User rejected the request.'' (Some 4001))"
  by (simp_all add: rejectedSwitchWorld_def sampleWorld_def)

lemma rejectedTransferWorld_fields [simp]:
  "ethereum rejectedTransferWorld"
  "isAddress rejectedTransferWorld = isAddress sampleWorld"
  "getSigner rejectedTransferWorld = Inr ()"
  "signerSendTransaction rejectedTransferWorld t v = Inl (Thrown True ''user rejected action'' (Some 4001))"
  by (simp_all add: rejectedTransferWorld_def sampleWorld_def)

section \<open>Validation of a transfer request\<close>

text \<open>
  Claim C1, as the code has it. The checks run in a fixed order. An ill-formed recipient
  gives InvalidRecipient whatever the amount and the balance are. Otherwise an amount that
  does not parse gives InvalidAmount and a parsed amount of zero or less gives
  AmountNotPositive, both without looking at the balance. Otherwise a stored balance that
  does not convert to the smallest unit gives InvalidAmount. Otherwise an amount above the
  converted balance gives InsufficientBalance, and any other amount passes, leaving the
  error slot empty.
\<close>

theorem validateTransaction_order:
  "(\<not> isAddress w (recipientAddress s) \<longrightarrow> verdict w s = Some InvalidRecipient) \<and>
   (isAddress w (recipientAddress s) \<and> parseUnits (amount s) ''wei'' = None
      \<longrightarrow> verdict w s = Some InvalidAmount) \<and>
   (isAddress w (recipientAddress s) \<and> parseUnits (amount s) ''wei'' = Some a \<and> a \<le> 0
      \<longrightarrow> verdict w s = Some AmountNotPositive) \<and>
   (isAddress w (recipientAddress s) \<and> parseUnits (amount s) ''wei'' = Some a \<and> 0 < a
      \<and> parseUnits (balance s) ''ether'' = None
      \<longrightarrow> verdict w s = Some InvalidAmount) \<and>
   (isAddress w (recipientAddress s) \<and> parseUnits (amount s) ''wei'' = Some a \<and> 0 < a
      \<and> parseUnits (balance s) ''ether'' = Some b \<and> b < a
      \<longrightarrow> verdict w s = Some InsufficientBalance) \<and>
   (isAddress w (recipientAddress s) \<and> parseUnits (amount s) ''wei'' = Some a \<and> 0 < a
      \<and> parseUnits (balance s) ''ether'' = Some b \<and> a \<le> b
      \<longrightarrow> verdict w s = None \<and> validateTransaction w s = (s\<lparr>error := ''''\<rparr>, True))"
  by (simp add: verdict_cases) (simp add: validateTransaction_def)

text \<open>One request for each of the six cases, in the order of the theorem.\<close>

theorem validateTransaction_order_witness:
  "verdict sampleWorld (formPage '''' ''1'' ''1.0000'') = Some InvalidRecipient \<and>
   verdict sampleWorld (formPage zeroAddress ''abc'' ''1.0000'') = Some InvalidAmount \<and>
   verdict sampleWorld (formPage zeroAddress ''0'' ''1.0000'') = Some AmountNotPositive \<and>
   verdict sampleWorld (formPage zeroAddress ''1'' ''Error'') = Some InvalidAmount \<and>
   verdict sampleWorld (formPage zeroAddress ''1'' ''0.0000'') = Some InsufficientBalance \<and>
   verdict sampleWorld (formPage zeroAddress ''1'' ''1.0000'') = None"
proof -
  have c1: "verdict sampleWorld (formPage '''' ''1'' ''1.0000'') = Some InvalidRecipient"
    using validateTransaction_order [of sampleWorld "formPage '''' ''1'' ''1.0000''"]
      not_isAddress_empty by simp
  have c2: "verdict sampleWorld (formPage zeroAddress ''abc'' ''1.0000'') = Some InvalidAmount"
    using validateTransaction_order [of sampleWorld "formPage zeroAddress ''abc'' ''1.0000''"]
      isAddress_zeroAddress parseUnits_abc_wei by simp
  have c3: "verdict sampleWorld (formPage zeroAddress ''0'' ''1.0000'') = Some AmountNotPositive"
    using validateTransaction_order [of sampleWorld "formPage zeroAddress ''0'' ''1.0000''" 0]
      isAddress_zeroAddress parseUnits_zero_wei by simp
  have c4: "verdict sampleWorld (formPage zeroAddress ''1'' ''Error'') = Some InvalidAmount"
    using validateTransaction_order [of sampleWorld "formPage zeroAddress ''1'' ''Error''" 1]
      isAddress_zeroAddress parseUnits_one_wei parseUnits_Error by simp
  have c5: "verdict sampleWorld (formPage zeroAddress ''1'' ''0.0000'') = Some InsufficientBalance"
    using validateTransaction_order [of sampleWorld "formPage zeroAddress ''1'' ''0.0000''" 1 0]
      isAddress_zeroAddress parseUnits_one_wei parseUnits_zero_ether by simp
  have c6: "verdict sampleWorld (formPage zeroAddress ''1'' ''1.0000'') = None"
    using validateTransaction_order
      [of sampleWorld "formPage zeroAddress ''1'' ''1.0000''" 1 1000000000000000000]
      isAddress_zeroAddress parseUnits_one_wei parseUnits_one_ether by simp
  from c1 c2 c3 c4 c5 c6 show ?thesis by blast
qed

text \<open>
  Claim C1 as it is written ends with "otherwise a parsed amount strictly greater than the
  balance yields InsufficientBalance; otherwise validation succeeds", for every balance
  display string. With the stored balance \<^verbatim>\<open>"Error"\<close>, a well-formed recipient and the
  amount \<^verbatim>\<open>"1"\<close>, which parses to a positive integer, validation neither succeeds nor
  reports InsufficientBalance: it reports InvalidAmount.
\<close>

theorem validateTransaction_order_counterexample:
  "isAddress sampleWorld zeroAddress \<and> parseUnits ''1'' ''wei'' = Some 1 \<and>
   snd (validateTransaction sampleWorld (formPage zeroAddress ''1'' ''Error'')) = False \<and>
   error (fst (validateTransaction sampleWorld (formPage zeroAddress ''1'' ''Error'')))
     = ''Invalid amount''"
  by (simp add: validateTransaction_def isAddress_zeroAddress parseUnits_one_wei parseUnits_Error)




section \<open>History records\<close>

text \<open>
  Claim C3, as the code has it. The raw record of the example becomes a stored record with
  the value \<open>1000000000000000000\<close> and the time stamp \<open>1700000000\<close>. The history list
  prints the stored value with \<^verbatim>\<open>ethers.formatEther\<close> (line 435), which gives
  \<^verbatim>\<open>"1.0"\<close>. The four-digit string \<^verbatim>\<open>"1.0000"\<close> is what the balance display makes
  of that same string (\<^verbatim>\<open>parseFloat\<close>, then \<^verbatim>\<open>toFixed(4)\<close>, line 116).
\<close>

theorem explorer_record_roundtrip:
  "formatTx examplePayload
     = Some \<lparr>tx_hash = ''0xabc'', tx_from = ''0x1'', tx_to = ''0x2'',
             tx_value = 1000000000000000000, tx_timestamp = Num 1700000000\<rparr>
   \<and> formatEther 1000000000000000000 = Some ''1.0''
   \<and> toFixed (parseFloat ''1.0'') 4 = ''1.0000''"
  by (simp add: formatTx_example formatEther_example parseFloat_one toFixed_one)

text \<open>
  Claim C3 as it is written says that formatting the stored value gives \<^verbatim>\<open>"1.0000"\<close>.
  The formatting applied to a stored record does not.
\<close>

theorem explorer_record_roundtrip_counterexample:
  "map_option tx_value (formatTx examplePayload) = Some 1000000000000000000
   \<and> formatEther 1000000000000000000 \<noteq> Some ''1.0000''"
  by (simp add: formatTx_example formatEther_example)

section \<open>Submitting a transfer\<close>

text \<open>
  Claim C4. When validation fails, \<^verbatim>\<open>sendTransaction\<close> returns at once (line 176): the
  page is the one it started from with the validation message in the error slot. Nothing
  is requested from the wallet, no signer is obtained and no transfer is handed to it (the
  trace of effects is unchanged), and the transfer status, hash and loading flag stay as
  they were.
\<close>

theorem sendTransaction_rejected_locally:
  assumes "verdict w s = Some e"
  shows "sendTransaction w s = s\<lparr>error := e\<rparr>
         \<and> effects (sendTransaction w s) = effects s
         \<and> txStatus (sendTransaction w s) = txStatus s
         \<and> txHash (sendTransaction w s) = txHash s
         \<and> isLoading (sendTransaction w s) = isLoading s"
proof -
  obtain s' ok where v: "validateTransaction w s = (s', ok)"
    by (cases "validateTransaction w s")
  with assms have ok: "\<not> ok" and e: "error s' = e"
    by (auto simp: verdict_def split: if_splits)
  from v have "s' = s\<lparr>error := error s'\<rparr>"
    by (auto simp: validateTransaction_def Let_def split: if_splits option.splits)
  with v ok e have "sendTransaction w s = s\<lparr>error := e\<rparr>"
    by (simp add: sendTransaction_def)
  then show ?thesis by simp
qed

text \<open>A request with an empty recipient, on a fresh page.\<close>

theorem sendTransaction_rejected_locally_witness:
  "verdict sampleWorld (formPage '''' ''1'' ''1.0000'') = Some ''Invalid recipient address''
   \<and> sendTransaction sampleWorld (formPage '''' ''1'' ''1.0000'')
       = (formPage '''' ''1'' ''1.0000'')\<lparr>error := ''Invalid recipient address''\<rparr>
   \<and> effects (sendTransaction sampleWorld (formPage '''' ''1'' ''1.0000'')) = []
   \<and> txStatus (sendTransaction sampleWorld (formPage '''' ''1'' ''1.0000'')) = ''''"
proof -
  have v: "verdict sampleWorld (formPage '''' ''1'' ''1.0000'') = Some ''Invalid recipient address''"
    by (simp add: verdict_cases not_isAddress_empty InvalidRecipient_def)
  from sendTransaction_rejected_locally [OF v] v show ?thesis
    by (simp add: formPage_def initialPage_def)
qed

section \<open>Network guard and account events\<close>

text \<open>
  Claim C5. With a wallet provider present, \<^verbatim>\<open>checkAndSwitchNetwork\<close> first requests a
  switch to chain \<^verbatim>\<open>0x15eb\<close>. It issues a second request, one registration request
  carrying the whole configuration, exactly when the switch was rejected with code 4902,
  and never anything else. The network error is cleared when the switch succeeded, or was
  rejected with 4902 and the registration succeeded; in every other case the message
  "Failed to switch to opBNB Testnet. Please switch manually." is recorded.
\<close>

theorem checkAndSwitchNetwork_fallback:
  assumes "ethereum w"
  shows "effects (checkAndSwitchNetwork w s)
           = effects s @ (if networkUnknown w then [switchRequest w, addRequest w] else [switchRequest w])
         \<and> networkError (checkAndSwitchNetwork w s)
           = (if networkEnsured w then '''' else switchFailed)
         \<and> chainId (OPBNB_TESTNET_CONFIG w) = ''0x15eb''"
  using assms
  by (auto simp: checkAndSwitchNetwork_def networkUnknown_def networkEnsured_def switchRequest_def
      addRequest_def emit_def Let_def OPBNB_TESTNET_CONFIG_def split: sum.splits)

text \<open>
  A wallet that switches, one that does not know the chain and accepts the registration,
  and one whose user rejects the switch, each on a page with a stale network error.
\<close>

theorem checkAndSwitchNetwork_fallback_witness:
  "effects (checkAndSwitchNetwork sampleWorld stalePage) = [switchRequest sampleWorld]
   \<and> networkError (checkAndSwitchNetwork sampleWorld stalePage) = ''''
   \<and> effects (checkAndSwitchNetwork unknownChainWorld stalePage)
       = [switchRequest unknownChainWorld, addRequest unknownChainWorld]
   \<and> networkError (checkAndSwitchNetwork unknownChainWorld stalePage) = ''''
   \<and> effects (checkAndSwitchNetwork rejectedSwitchWorld stalePage) = [switchRequest rejectedSwitchWorld]
   \<and> networkError (checkAndSwitchNetwork rejectedSwitchWorld stalePage)
       = ''Failed to switch to opBNB Testnet. Please switch manually.''"
proof -
  note t1 = checkAndSwitchNetwork_fallback [of sampleWorld stalePage, OF sampleWorld_fields(1)]
  note t2 = checkAndSwitchNetwork_fallback [of unknownChainWorld stalePage, OF unknownChainWorld_fields(1)]
  note t3 = checkAndSwitchNetwork_fallback [of rejectedSwitchWorld stalePage, OF rejectedSwitchWorld_fields(1)]
  from t1 t2 t3 show ?thesis
    by (simp add: networkUnknown_def networkEnsured_def stalePage_def initialPage_def switchFailed_def)
qed



section \<open>The end of a transfer\<close>



section \<open>Fetching the history\<close>




text \<open>
  Claim C9, as the code has it. After a successful fetch the stored history is the
  payload converted record by record: it has the payload's length and order, and nothing
  of the previous history is kept. It has at most five records when the payload has, and
  is most recent first when the payload is; the code asks the service for five records in
  descending order and neither truncates nor sorts what comes back.
\<close>

theorem history_replaced_by_payload:
  assumes "keyPresent w"
    and "fetchJson w (txlistUrl a (envString (NEXT_PUBLIC_SCAN w))) = Inr data"
    and "status data = ''1''" and "result data = ResultArray raw"
    and "formatTxs raw = Some txs"
  shows "transactions (getLastTransactions w a s) = txs
         \<and> length (transactions (getLastTransactions w a s)) = length raw
         \<and> map tx_hash (transactions (getLastTransactions w a s)) = map bsc_hash raw
         \<and> map tx_timestamp (transactions (getLastTransactions w a s))
             = map (\<lambda>t. parseInt (bsc_timeStamp t) 0) raw
         \<and> (length raw \<le> 5 \<longrightarrow> length (transactions (getLastTransactions w a s)) \<le> 5)
         \<and> (recentFirst (map (\<lambda>t. parseInt (bsc_timeStamp t) 0) raw)
              \<longrightarrow> recentFirst (map tx_timestamp (transactions (getLastTransactions w a s))))"
proof -
  have "transactions (getLastTransactions w a s) = txs"
    using assms(2-5) by (simp add: getLastTransactions_fetch [OF assms(1)] Let_def emit_def)
  with formatTxs_shape [OF assms(5)] show ?thesis by simp
qed

text \<open>Two records, newest first, on a page that already shows one record.\<close>

theorem history_replaced_by_payload_witness:
  "transactions (getLastTransactions (explorerAnswers newestFirst) zeroAddress stalePage)
     = [\<lparr>tx_hash = ''0xabc'', tx_from = ''0x1'', tx_to = ''0x2'', tx_value = 0, tx_timestamp = Num 2\<rparr>,
        \<lparr>tx_hash = ''0xabc'', tx_from = ''0x1'', tx_to = ''0x2'', tx_value = 0, tx_timestamp = Num 1\<rparr>]
   \<and> length (transactions (getLastTransactions (explorerAnswers newestFirst) zeroAddress stalePage)) \<le> 5
   \<and> recentFirst (map tx_timestamp
        (transactions (getLastTransactions (explorerAnswers newestFirst) zeroAddress stalePage)))"
proof -
  have st: "status newestFirst = ''1''"
    and res: "result newestFirst = ResultArray [rawAt ''2'', rawAt ''1'']"
    by (simp_all add: newestFirst_def)
  have txs: "formatTxs [rawAt ''2'', rawAt ''1'']
               = Some [\<lparr>tx_hash = ''0xabc'', tx_from = ''0x1'', tx_to = ''0x2'', tx_value = 0,
                         tx_timestamp = Num 2\<rparr>,
                       \<lparr>tx_hash = ''0xabc'', tx_from = ''0x1'', tx_to = ''0x2'', tx_value = 0,
                         tx_timestamp = Num 1\<rparr>]"
    by (simp add: formatTx_rawAt parseInt_1 parseInt_2)
  note t = history_replaced_by_payload
    [of "explorerAnswers newestFirst" zeroAddress newestFirst "[rawAt ''2'', rawAt ''1'']" _ stalePage,
     OF explorerAnswers_fields(1) explorerAnswers_fields(2) st res txs]
  have len: "length [rawAt ''2'', rawAt ''1''] \<le> 5" by simp
  have rf: "recentFirst (map (\<lambda>t. parseInt (bsc_timeStamp t) 0) [rawAt ''2'', rawAt ''1''])"
    by (simp add: recentFirst_def notEarlier_def rawAt_def parseInt_1 parseInt_2)
  from t [THEN conjunct1]
    t [THEN conjunct2, THEN conjunct2, THEN conjunct2, THEN conjunct2, THEN conjunct1, THEN mp, OF len]
    t [THEN conjunct2, THEN conjunct2, THEN conjunct2, THEN conjunct2, THEN conjunct2, THEN mp, OF rf]
  show ?thesis by simp
qed

text \<open>
  Claim C9 as it is written says that the cap and the order hold for every payload the
  fetch accepts. A payload of six records is stored as six records, and a payload that is
  oldest first is stored oldest first.
\<close>

theorem history_replaced_by_payload_counterexample:
  "length (transactions (getLastTransactions (explorerAnswers sixRecords) zeroAddress initialPage)) = 6
   \<and> map tx_timestamp (transactions (getLastTransactions (explorerAnswers oldestFirst) zeroAddress initialPage))
       = [Num 1, Num 2]
   \<and> \<not> recentFirst [Num 1, Num 2]"
  by (simp add: getLastTransactions_fetch Let_def sixRecords_def oldestFirst_def emit_def
      formatTx_rawAt parseInt_1 parseInt_2 recentFirst_def notEarlier_def)

section \<open>Validation with an unreadable balance\<close>

text \<open>
  Claim C10, as the code has it. When the stored balance is the sentinel \<^verbatim>\<open>"Error"\<close>,
  or any other string that does not convert to the smallest unit, validation reports
  InvalidAmount for every request that gets as far as the balance: a well-formed recipient
  with an amount that either does not parse or parses to a positive integer.
\<close>

theorem unparseable_balance_invalid_amount:
  assumes "balance s = ''Error'' \<or> parseUnits (balance s) ''ether'' = None"
    and "isAddress w (recipientAddress s)"
    and "parseUnits (amount s) ''wei'' = None \<or> (\<exists>a. parseUnits (amount s) ''wei'' = Some a \<and> 0 < a)"
  shows "verdict w s = Some InvalidAmount"
proof -
  from assms(1) have "parseUnits (balance s) ''ether'' = None"
    using parseUnits_Error by auto
  with assms(2,3) show ?thesis
    by (auto simp: verdict_cases)
qed

theorem unparseable_balance_invalid_amount_witness:
  "verdict sampleWorld (formPage zeroAddress ''1'' ''Error'') = Some ''Invalid amount''"
proof -
  have b: "balance (formPage zeroAddress ''1'' ''Error'') = ''Error''
           \<or> parseUnits (balance (formPage zeroAddress ''1'' ''Error'')) ''ether'' = None"
    by simp
  have r: "isAddress sampleWorld (recipientAddress (formPage zeroAddress ''1'' ''Error''))"
    by (simp add: isAddress_zeroAddress)
  have a: "parseUnits (amount (formPage zeroAddress ''1'' ''Error'')) ''wei'' = None
           \<or> (\<exists>a. parseUnits (amount (formPage zeroAddress ''1'' ''Error'')) ''wei'' = Some a \<and> 0 < a)"
    by (simp add: parseUnits_one_wei)
  from unparseable_balance_invalid_amount [OF b r a] show ?thesis
    by (simp add: InvalidAmount_def)
qed

text \<open>
  Claim C10 as it is written says "for every input". With the stored balance
  \<^verbatim>\<open>"Error"\<close>, an empty recipient is reported as InvalidRecipient and the amount
  \<^verbatim>\<open>"0"\<close> as AmountNotPositive: both checks come before the balance is converted.
\<close>

theorem unparseable_balance_counterexample:
  "parseUnits ''Error'' ''ether'' = None \<and>
   verdict sampleWorld (formPage '''' ''1'' ''Error'') = Some ''Invalid recipient address'' \<and>
   verdict sampleWorld (formPage zeroAddress ''0'' ''Error'') = Some ''Amount must be greater than 0''"
  by (simp add: verdict_cases parseUnits_Error parseUnits_zero_wei not_isAddress_empty
      isAddress_zeroAddress InvalidRecipient_def AmountNotPositive_def)

end
